theory Spec2Isabelle
  imports Main "HOL-Library.Word"
begin

unbundle bit_operations_syntax

section \<open>The operand value of asmjit (core/operand.h)\<close>

text \<open>
  An operand is sixteen bytes: the 32-bit signature, the 32-bit base id and eight
  bytes of payload. The payload is a C++ union of \<^verbatim>\<open>uint32_t _data32[2]\<close>,
  \<^verbatim>\<open>uint64_t _data64\<close> and \<^verbatim>\<open>MemData { indexId, offsetLo32 }\<close>. The record
  keeps the two 32-bit halves in memory order; the 64-bit view reads them on a
  little-endian host (the low half first), the layout of the x86 targets of this
  library. \<^verbatim>\<open>uint32_t\<close> and \<^verbatim>\<open>int32_t\<close> are both \<open>32 word\<close>: a cast between
  them keeps the bit pattern, \<open>unat\<close> and \<open>sint\<close> are the two readings.
  Unsigned arithmetic wraps around; an addition of two \<^verbatim>\<open>int64_t\<close> whose sum leaves
  the range of \<^verbatim>\<open>int64_t\<close> is undefined in C++ and has no result.
\<close>

type_synonym u32 = "32 word"
type_synonym u64 = "64 word"

record Operand =
  op_signature :: u32
  op_baseId :: u32
  op_data32_0 :: u32
  op_data32_1 :: u32

text \<open>The members \<^verbatim>\<open>_mem.indexId\<close> and \<^verbatim>\<open>_mem.offsetLo32\<close> of the union.\<close>

definition mem_indexId :: "Operand \<Rightarrow> u32" where
  "mem_indexId p = op_data32_0 p"

definition mem_offsetLo32 :: "Operand \<Rightarrow> u32" where
  "mem_offsetLo32 p = op_data32_1 p"

definition join64 :: "u32 \<Rightarrow> u32 \<Rightarrow> u64" where
  "join64 lo hi = ucast lo OR push_bit 32 (ucast hi)"

text \<open>Reading and writing the member \<^verbatim>\<open>_data64\<close> of the union.\<close>

definition data64 :: "Operand \<Rightarrow> u64" where
  "data64 p = join64 (op_data32_0 p) (op_data32_1 p)"

definition set_data64 :: "u64 \<Rightarrow> Operand \<Rightarrow> Operand" where
  "set_data64 v p = p\<lparr>op_data32_0 := ucast v, op_data32_1 := ucast (drop_bit 32 v)\<rparr>"

subsection \<open>Constants\<close>

definition kOpNone :: u32 where "kOpNone = 0"
definition kOpReg :: u32 where "kOpReg = 1"
definition kOpMem :: u32 where "kOpMem = 2"
definition kOpImm :: u32 where "kOpImm = 3"
definition kOpLabel :: u32 where "kOpLabel = 4"

definition kSignatureOpShift :: nat where "kSignatureOpShift = 0"
definition kSignatureOpMask :: u32 where
  "kSignatureOpMask = push_bit kSignatureOpShift 0x07"
definition kSignatureRegTypeShift :: nat where "kSignatureRegTypeShift = 3"
definition kSignatureRegTypeMask :: u32 where
  "kSignatureRegTypeMask = push_bit kSignatureRegTypeShift 0x1F"
definition kSignatureRegGroupShift :: nat where "kSignatureRegGroupShift = 8"
definition kSignatureRegGroupMask :: u32 where
  "kSignatureRegGroupMask = push_bit kSignatureRegGroupShift 0x0F"
definition kSignatureMemBaseTypeShift :: nat where "kSignatureMemBaseTypeShift = 3"
definition kSignatureMemBaseTypeMask :: u32 where
  "kSignatureMemBaseTypeMask = push_bit kSignatureMemBaseTypeShift 0x1F"
definition kSignatureMemIndexTypeShift :: nat where "kSignatureMemIndexTypeShift = 8"
definition kSignatureMemIndexTypeMask :: u32 where
  "kSignatureMemIndexTypeMask = push_bit kSignatureMemIndexTypeShift 0x1F"
definition kSignatureMemAddrTypeShift :: nat where "kSignatureMemAddrTypeShift = 13"
definition kSignatureMemAddrTypeMask :: u32 where
  "kSignatureMemAddrTypeMask = push_bit kSignatureMemAddrTypeShift 0x03"
definition kSignatureSizeShift :: nat where "kSignatureSizeShift = 24"
definition kSignatureSizeMask :: u32 where
  "kSignatureSizeMask = push_bit kSignatureSizeShift 0xFF"

text \<open>
  Modelled from the spec: \<^verbatim>\<open>Globals::kInvalidId\<close> (globals.h is not among the
  sources), the global invalid-id sentinel, the largest 32-bit value.
\<close>

definition kInvalidId :: u32 where "kInvalidId = 0xFFFFFFFF"

definition kVirtIdMin :: u32 where "kVirtIdMin = 256"
definition kVirtIdMax :: u32 where "kVirtIdMax = kInvalidId - 1"
definition kVirtIdCount :: u32 where "kVirtIdCount = kVirtIdMax - kVirtIdMin + 1"

definition kIdBad :: u32 where "kIdBad = 0xFF"
definition kLabelTag :: u32 where "kLabelTag = 1"

subsection \<open>Helpers of the Support namespace\<close>

text \<open>
  Modelled from the spec: \<^verbatim>\<open>Support::constCtz\<close> (support.h is not among the
  sources), the count of trailing zero bits of a 32-bit mask.
\<close>

primrec ctz_upto :: "nat \<Rightarrow> u32 \<Rightarrow> nat" where
  "ctz_upto 0 x = 0"
| "ctz_upto (Suc n) x = (if bit x 0 then 0 else Suc (ctz_upto n (drop_bit 1 x)))"

definition constCtz :: "u32 \<Rightarrow> nat" where
  "constCtz x = ctz_upto 32 x"

text \<open>
  Modelled from the spec: \<^verbatim>\<open>Support::isBetween\<close> (support.h is not among the
  sources), the inclusive range check behind "is register or memory".
\<close>

definition isBetween :: "u32 \<Rightarrow> u32 \<Rightarrow> u32 \<Rightarrow> bool" where
  "isBetween x a b = (a \<le> x \<and> x \<le> b)"

text \<open>
  Modelled from the spec: \<^verbatim>\<open>Support::bitMaskFromBool\<close> (support.h is not among
  the sources), all bits set for true and no bit set for false.
\<close>

definition bitMaskFromBool :: "bool \<Rightarrow> u32" where
  "bitMaskFromBool b = (if b then - 1 else 0)"

text \<open>
  Modelled from the spec: \<^verbatim>\<open>Support::unpackU32At0\<close> (support.h is not among the
  sources), the half of a 64-bit value that lands in \<^verbatim>\<open>_data32[0]\<close>, so that
  \<^verbatim>\<open>_data64\<close> reads the value back.
\<close>

definition unpackU32At0 :: "u64 \<Rightarrow> u32" where
  "unpackU32At0 v = ucast v"

text \<open>
  Modelled from the spec: \<^verbatim>\<open>Support::unpackU32At1\<close> (support.h is not among the
  sources), the half of a 64-bit value that lands in \<^verbatim>\<open>_data32[1]\<close>.
\<close>

definition unpackU32At1 :: "u64 \<Rightarrow> u32" where
  "unpackU32At1 v = ucast (drop_bit 32 v)"

text \<open>
  Modelled from the spec: \<^verbatim>\<open>Support::isInt8\<close> at type \<^verbatim>\<open>int64_t\<close> (support.h is not
  among the sources), the two's complement range of a signed 8-bit integer.
\<close>

definition Support_isInt8 :: "u64 \<Rightarrow> bool" where
  "Support_isInt8 x = (- 128 \<le> sint x \<and> sint x \<le> 127)"

text \<open>
  Modelled from the spec: \<^verbatim>\<open>Support::isUInt8\<close> at type \<^verbatim>\<open>int64_t\<close>, the range of an
  unsigned 8-bit integer.
\<close>

definition Support_isUInt8 :: "u64 \<Rightarrow> bool" where
  "Support_isUInt8 x = (0 \<le> sint x \<and> sint x \<le> 255)"

text \<open>
  Modelled from the spec: \<^verbatim>\<open>Support::isInt16\<close> at type \<^verbatim>\<open>int64_t\<close>, the two's
  complement range of a signed 16-bit integer.
\<close>

definition Support_isInt16 :: "u64 \<Rightarrow> bool" where
  "Support_isInt16 x = (- 32768 \<le> sint x \<and> sint x \<le> 32767)"

text \<open>
  Modelled from the spec: \<^verbatim>\<open>Support::isUInt16\<close> at type \<^verbatim>\<open>int64_t\<close>, the range of
  an unsigned 16-bit integer.
\<close>

definition Support_isUInt16 :: "u64 \<Rightarrow> bool" where
  "Support_isUInt16 x = (0 \<le> sint x \<and> sint x \<le> 65535)"

text \<open>
  Modelled from the spec: \<^verbatim>\<open>Support::isInt32\<close> at type \<^verbatim>\<open>int64_t\<close>, the two's
  complement range of a signed 32-bit integer.
\<close>

definition Support_isInt32 :: "u64 \<Rightarrow> bool" where
  "Support_isInt32 x = (- 2147483648 \<le> sint x \<and> sint x \<le> 2147483647)"

text \<open>
  Modelled from the spec: \<^verbatim>\<open>Support::isUInt32\<close> at type \<^verbatim>\<open>int64_t\<close>, the range of
  an unsigned 32-bit integer.
\<close>

definition Support_isUInt32 :: "u64 \<Rightarrow> bool" where
  "Support_isUInt32 x = (0 \<le> sint x \<and> sint x \<le> 4294967295)"

subsection \<open>Operand\_: identifiers of virtual registers\<close>

definition isVirtId :: "u32 \<Rightarrow> bool" where
  "isVirtId vid = (vid - kVirtIdMin < kVirtIdCount)"

definition indexToVirtId :: "u32 \<Rightarrow> u32" where
  "indexToVirtId idx = idx + kVirtIdMin"

definition virtIdToIndex :: "u32 \<Rightarrow> u32" where
  "virtIdToIndex vid = vid - kVirtIdMin"

subsection \<open>Operand\_: construction, reset, signature parts\<close>

text \<open>The constructor \<^verbatim>\<open>Operand(Globals::Init, u0, u1, u2, u3)\<close>.\<close>

definition Operand_init :: "u32 \<Rightarrow> u32 \<Rightarrow> u32 \<Rightarrow> u32 \<Rightarrow> Operand" where
  "Operand_init u0 u1 u2 u3 =
     \<lparr>op_signature = u0, op_baseId = u1, op_data32_0 = u2, op_data32_1 = u3\<rparr>"

text \<open>The default constructor \<^verbatim>\<open>Operand()\<close>.\<close>

definition Operand_default :: Operand where
  "Operand_default =
     \<lparr>op_signature = kOpNone, op_baseId = 0, op_data32_0 = 0, op_data32_1 = 0\<rparr>"

definition initReg :: "u32 \<Rightarrow> u32 \<Rightarrow> Operand \<Rightarrow> Operand" where
  "initReg signature rId p = set_data64 0 (p\<lparr>op_signature := signature, op_baseId := rId\<rparr>)"

definition reset :: "Operand \<Rightarrow> Operand" where
  "reset p = set_data64 0 (p\<lparr>op_signature := 0, op_baseId := 0\<rparr>)"

definition signature :: "Operand \<Rightarrow> u32" where
  "signature p = op_signature p"

definition hasSignaturePart :: "u32 \<Rightarrow> Operand \<Rightarrow> bool" where
  "hasSignaturePart msk p = (op_signature p AND msk \<noteq> 0)"

definition getSignaturePart :: "u32 \<Rightarrow> Operand \<Rightarrow> u32" where
  "getSignaturePart msk p =
     drop_bit (constCtz msk) (op_signature p) AND drop_bit (constCtz msk) msk"

text \<open>
  \<^verbatim>\<open>_setSignaturePart\<close> starts with \<^verbatim>\<open>ASMJIT_ASSERT\<close>: a value with a bit outside the
  field stops a debug build, which is the result \<open>None\<close>.
\<close>

definition setSignaturePart :: "u32 \<Rightarrow> u32 \<Rightarrow> Operand \<Rightarrow> Operand option" where
  "setSignaturePart msk v p =
     (if v AND NOT (drop_bit (constCtz msk) msk) = 0
      then Some (p\<lparr>op_signature := (op_signature p AND NOT msk) OR push_bit (constCtz msk) v\<rparr>)
      else None)"

definition opType :: "Operand \<Rightarrow> u32" where
  "opType p = getSignaturePart kSignatureOpMask p"

definition isNone :: "Operand \<Rightarrow> bool" where
  "isNone p = (op_signature p = 0)"
definition isReg :: "Operand \<Rightarrow> bool" where
  "isReg p = (opType p = kOpReg)"
definition isMem :: "Operand \<Rightarrow> bool" where
  "isMem p = (opType p = kOpMem)"
definition isImm :: "Operand \<Rightarrow> bool" where
  "isImm p = (opType p = kOpImm)"
definition isLabel :: "Operand \<Rightarrow> bool" where
  "isLabel p = (opType p = kOpLabel)"

definition isPhysReg :: "Operand \<Rightarrow> bool" where
  "isPhysReg p = (isReg p \<and> op_baseId p < 0xFF)"
definition isVirtReg :: "Operand \<Rightarrow> bool" where
  "isVirtReg p = (isReg p \<and> op_baseId p > 0xFF)"

definition size_op :: "Operand \<Rightarrow> u32" where
  "size_op p = getSignaturePart kSignatureSizeMask p"

definition id_op :: "Operand \<Rightarrow> u32" where
  "id_op p = op_baseId p"

definition isEqual :: "Operand \<Rightarrow> Operand \<Rightarrow> bool" where
  "isEqual p q =
     (op_signature p = op_signature q \<and> op_baseId p = op_baseId q \<and> data64 p = data64 q)"

definition isRegOrMem :: "Operand \<Rightarrow> bool" where
  "isRegOrMem p = isBetween (opType p) kOpReg kOpMem"

subsection \<open>Label\<close>

definition Label_default :: Operand where
  "Label_default = Operand_init kOpLabel kInvalidId 0 0"

definition Label :: "u32 \<Rightarrow> Operand" where
  "Label lid = Operand_init kOpLabel lid 0 0"

definition Label_reset :: "Operand \<Rightarrow> Operand" where
  "Label_reset p = set_data64 0 (p\<lparr>op_signature := kOpLabel, op_baseId := kInvalidId\<rparr>)"

definition Label_isValid :: "Operand \<Rightarrow> bool" where
  "Label_isValid p = (op_baseId p \<noteq> kInvalidId)"

subsection \<open>Registers and their traits\<close>

text \<open>The signature that \<^verbatim>\<open>ASMJIT_DEFINE_REG_TRAITS\<close> computes from type, group and size.\<close>

definition RegTraits_kSignature :: "u32 \<Rightarrow> u32 \<Rightarrow> u32 \<Rightarrow> u32" where
  "RegTraits_kSignature kType kGroup kSize =
     push_bit kSignatureOpShift kOpReg OR push_bit kSignatureRegTypeShift kType
       OR push_bit kSignatureRegGroupShift kGroup OR push_bit kSignatureSizeShift kSize"

definition BaseReg_kSignature :: u32 where
  "BaseReg_kSignature = kOpReg"

definition BaseReg_default :: Operand where
  "BaseReg_default = Operand_init BaseReg_kSignature kIdBad 0 0"

text \<open>The constructor \<^verbatim>\<open>BaseReg(signature, rId)\<close>.\<close>

definition BaseReg :: "u32 \<Rightarrow> u32 \<Rightarrow> Operand" where
  "BaseReg sg rId = Operand_init sg rId 0 0"

definition BaseReg_isSame :: "Operand \<Rightarrow> Operand \<Rightarrow> bool" where
  "BaseReg_isSame p q = (op_signature p = op_signature q \<and> op_baseId p = op_baseId q)"

definition BaseReg_isValid :: "Operand \<Rightarrow> bool" where
  "BaseReg_isValid p = (op_signature p \<noteq> 0 \<and> op_baseId p \<noteq> kIdBad)"

definition BaseReg_isPhysReg :: "Operand \<Rightarrow> bool" where
  "BaseReg_isPhysReg p = (op_baseId p < kIdBad)"
definition BaseReg_isVirtReg :: "Operand \<Rightarrow> bool" where
  "BaseReg_isVirtReg p = (op_baseId p > kIdBad)"

definition BaseReg_type :: "Operand \<Rightarrow> u32" where
  "BaseReg_type p = getSignaturePart kSignatureRegTypeMask p"
definition BaseReg_group :: "Operand \<Rightarrow> u32" where
  "BaseReg_group p = getSignaturePart kSignatureRegGroupMask p"

subsection \<open>RegOnly, the compact register value\<close>

record RegOnly =
  ro_signature :: u32
  ro_id :: u32

definition RegOnly_init :: "u32 \<Rightarrow> u32 \<Rightarrow> RegOnly" where
  "RegOnly_init sg rId = \<lparr>ro_signature = sg, ro_id = rId\<rparr>"

text \<open>The overload \<^verbatim>\<open>init(const BaseReg&)\<close>.\<close>

definition RegOnly_init_reg :: "Operand \<Rightarrow> RegOnly" where
  "RegOnly_init_reg r = RegOnly_init (signature r) (id_op r)"

definition RegOnly_reset :: RegOnly where
  "RegOnly_reset = RegOnly_init 0 0"

definition RegOnly_isNone :: "RegOnly \<Rightarrow> bool" where
  "RegOnly_isNone x = (ro_signature x = 0)"
definition RegOnly_isReg :: "RegOnly \<Rightarrow> bool" where
  "RegOnly_isReg x = (ro_signature x \<noteq> 0)"
definition RegOnly_isPhysReg :: "RegOnly \<Rightarrow> bool" where
  "RegOnly_isPhysReg x = (ro_id x < kIdBad)"
definition RegOnly_isVirtReg :: "RegOnly \<Rightarrow> bool" where
  "RegOnly_isVirtReg x = (ro_id x > kIdBad)"
definition RegOnly_signature :: "RegOnly \<Rightarrow> u32" where
  "RegOnly_signature x = ro_signature x"
definition RegOnly_id :: "RegOnly \<Rightarrow> u32" where
  "RegOnly_id x = ro_id x"

definition RegOnly_getSignaturePart :: "u32 \<Rightarrow> RegOnly \<Rightarrow> u32" where
  "RegOnly_getSignaturePart msk x =
     drop_bit (constCtz msk) (ro_signature x) AND drop_bit (constCtz msk) msk"

definition RegOnly_type :: "RegOnly \<Rightarrow> u32" where
  "RegOnly_type x = RegOnly_getSignaturePart kSignatureRegTypeMask x"
definition RegOnly_group :: "RegOnly \<Rightarrow> u32" where
  "RegOnly_group x = RegOnly_getSignaturePart kSignatureRegGroupMask x"

definition toReg :: "RegOnly \<Rightarrow> Operand" where
  "toReg x = BaseReg (ro_signature x) (ro_id x)"

subsection \<open>BaseMem\<close>

record Decomposed =
  d_baseType :: u32
  d_baseId :: u32
  d_indexType :: u32
  d_indexId :: u32
  d_offset :: u32
  d_size :: u32
  d_flags :: u32

definition BaseMem_default :: Operand where
  "BaseMem_default = Operand_init kOpMem 0 0 0"

text \<open>The constructor \<^verbatim>\<open>BaseMem(const Decomposed&)\<close>.\<close>

definition BaseMem :: "Decomposed \<Rightarrow> Operand" where
  "BaseMem d =
     Operand_init
       (kOpMem OR push_bit kSignatureMemBaseTypeShift (d_baseType d)
          OR push_bit kSignatureMemIndexTypeShift (d_indexType d)
          OR push_bit kSignatureSizeShift (d_size d)
          OR d_flags d)
       (d_baseId d) (d_indexId d) (d_offset d)"

definition BaseMem_reset :: "Operand \<Rightarrow> Operand" where
  "BaseMem_reset p = set_data64 0 (p\<lparr>op_signature := kOpMem, op_baseId := 0\<rparr>)"

definition addrType :: "Operand \<Rightarrow> u32" where
  "addrType p = getSignaturePart kSignatureMemAddrTypeMask p"
definition setAddrType :: "u32 \<Rightarrow> Operand \<Rightarrow> Operand option" where
  "setAddrType a p = setSignaturePart kSignatureMemAddrTypeMask a p"
definition setSize :: "u32 \<Rightarrow> Operand \<Rightarrow> Operand option" where
  "setSize s p = setSignaturePart kSignatureSizeMask s p"

definition hasBase :: "Operand \<Rightarrow> bool" where
  "hasBase p = (op_signature p AND kSignatureMemBaseTypeMask \<noteq> 0)"

definition baseType :: "Operand \<Rightarrow> u32" where
  "baseType p = getSignaturePart kSignatureMemBaseTypeMask p"
definition indexType :: "Operand \<Rightarrow> u32" where
  "indexType p = getSignaturePart kSignatureMemIndexTypeMask p"
definition baseId :: "Operand \<Rightarrow> u32" where
  "baseId p = op_baseId p"
definition indexId :: "Operand \<Rightarrow> u32" where
  "indexId p = mem_indexId p"

definition isOffset64Bit :: "Operand \<Rightarrow> bool" where
  "isOffset64Bit p = (baseType p = 0)"

definition hasOffset :: "Operand \<Rightarrow> bool" where
  "hasOffset p =
     (mem_offsetLo32 p OR (op_baseId p AND bitMaskFromBool (isOffset64Bit p)) \<noteq> 0)"

text \<open>
  \<^verbatim>\<open>offset()\<close> returns \<^verbatim>\<open>int64_t\<close>: in the based mode the low word is sign-extended.
\<close>

definition offset :: "Operand \<Rightarrow> u64" where
  "offset p =
     (if isOffset64Bit p then ucast (mem_offsetLo32 p) OR push_bit 32 (ucast (op_baseId p))
      else scast (mem_offsetLo32 p))"

definition offsetLo32 :: "Operand \<Rightarrow> u32" where
  "offsetLo32 p = mem_offsetLo32 p"

text \<open>
  The addition of two \<^verbatim>\<open>int64_t\<close>. Signed overflow is undefined behaviour: the
  result \<open>None\<close>.
\<close>

definition add_int64 :: "u64 \<Rightarrow> u64 \<Rightarrow> u64 option" where
  "add_int64 a b =
     (if - (2 ^ 63) \<le> sint a + sint b \<and> sint a + sint b < 2 ^ 63 then Some (a + b) else None)"

text \<open>
  \<^verbatim>\<open>addOffset\<close>: the absolute branch adds in \<^verbatim>\<open>int64_t\<close> and has a result only
  when that addition has one; the based branch adds in \<^verbatim>\<open>uint32_t\<close> and wraps.
\<close>

definition addOffset :: "u64 \<Rightarrow> Operand \<Rightarrow> Operand option" where
  "addOffset off p =
     (if isOffset64Bit p then
        (case add_int64 off (ucast (mem_offsetLo32 p) OR push_bit 32 (ucast (op_baseId p))) of
           None \<Rightarrow> None
         | Some result \<Rightarrow>
             Some (p\<lparr>op_data32_1 := ucast (result AND 0xFFFFFFFF),
                     op_baseId := ucast (drop_bit 32 result)\<rparr>))
      else Some (p\<lparr>op_data32_1 := mem_offsetLo32 p + ucast (off AND 0xFFFFFFFF)\<rparr>))"

subsection \<open>Imm\<close>

text \<open>The constructor \<^verbatim>\<open>Imm(int64_t val)\<close>.\<close>

definition Imm :: "u64 \<Rightarrow> Operand" where
  "Imm val = Operand_init kOpImm 0 (unpackU32At0 val) (unpackU32At1 val)"

definition isInt8 :: "Operand \<Rightarrow> bool" where
  "isInt8 p = Support_isInt8 (data64 p)"
definition isUInt8 :: "Operand \<Rightarrow> bool" where
  "isUInt8 p = Support_isUInt8 (data64 p)"
definition isInt16 :: "Operand \<Rightarrow> bool" where
  "isInt16 p = Support_isInt16 (data64 p)"
definition isUInt16 :: "Operand \<Rightarrow> bool" where
  "isUInt16 p = Support_isUInt16 (data64 p)"
definition isInt32 :: "Operand \<Rightarrow> bool" where
  "isInt32 p = Support_isInt32 (data64 p)"
definition isUInt32 :: "Operand \<Rightarrow> bool" where
  "isUInt32 p = Support_isUInt32 (data64 p)"

subsection \<open>Which reset a call reaches\<close>

text \<open>
  \<^verbatim>\<open>reset()\<close> is not virtual: the class of the object the call is made on selects
  the function. \<^verbatim>\<open>Label\<close> and \<^verbatim>\<open>BaseMem\<close> declare a \<^verbatim>\<open>reset()\<close> of their own, which
  hides the one of \<^verbatim>\<open>Operand_\<close>; \<^verbatim>\<open>Operand\<close>, \<^verbatim>\<open>BaseReg\<close> and \<^verbatim>\<open>Imm\<close> declare none
  and inherit \<^verbatim>\<open>Operand_::reset\<close>.
\<close>

datatype OperandClass = ClassOperand | ClassLabel | ClassBaseReg | ClassBaseMem | ClassImm

fun reset_of :: "OperandClass \<Rightarrow> Operand \<Rightarrow> Operand" where
  "reset_of ClassOperand p = reset p"
| "reset_of ClassLabel p = Label_reset p"
| "reset_of ClassBaseReg p = reset p"
| "reset_of ClassBaseMem p = BaseMem_reset p"
| "reset_of ClassImm p = reset p"

subsection \<open>The signature fields by name\<close>

datatype SigField = FieldOp | FieldRegType | FieldRegGroup | FieldSize | FieldMemAddrType

fun fieldMask :: "SigField \<Rightarrow> u32" where
  "fieldMask FieldOp = kSignatureOpMask"
| "fieldMask FieldRegType = kSignatureRegTypeMask"
| "fieldMask FieldRegGroup = kSignatureRegGroupMask"
| "fieldMask FieldSize = kSignatureSizeMask"
| "fieldMask FieldMemAddrType = kSignatureMemAddrTypeMask"

text \<open>The width in bits that the comments of \<^verbatim>\<open>SignatureBits\<close> give each field.\<close>

fun fieldWidth :: "SigField \<Rightarrow> nat" where
  "fieldWidth FieldOp = 3"
| "fieldWidth FieldRegType = 5"
| "fieldWidth FieldRegGroup = 4"
| "fieldWidth FieldSize = 8"
| "fieldWidth FieldMemAddrType = 2"

subsection \<open>The six fit predicates of an immediate\<close>

definition fits :: "u64 \<Rightarrow> bool \<times> bool \<times> bool \<times> bool \<times> bool \<times> bool" where
  "fits v =
     (isInt8 (Imm v), isUInt8 (Imm v), isInt16 (Imm v), isUInt16 (Imm v),
      isInt32 (Imm v), isUInt32 (Imm v))"

section \<open>Basic facts\<close>

lemma constCtz_masks:
  "constCtz kSignatureOpMask = 0"
  "constCtz kSignatureRegTypeMask = 3"
  "constCtz kSignatureRegGroupMask = 8"
  "constCtz kSignatureMemBaseTypeMask = 3"
  "constCtz kSignatureMemIndexTypeMask = 8"
  "constCtz kSignatureMemAddrTypeMask = 13"
  "constCtz kSignatureSizeMask = 24"
  by code_simp+

lemma mask_values:
  "kSignatureOpMask = 0x7"
  "kSignatureRegTypeMask = 0xF8"
  "kSignatureRegGroupMask = 0xF00"
  "kSignatureMemBaseTypeMask = 0xF8"
  "kSignatureMemIndexTypeMask = 0x1F00"
  "kSignatureMemAddrTypeMask = 0x6000"
  "kSignatureSizeMask = 0xFF000000"
  by (simp_all add: kSignatureOpMask_def kSignatureRegTypeMask_def
      kSignatureRegGroupMask_def kSignatureMemBaseTypeMask_def kSignatureMemIndexTypeMask_def
      kSignatureMemAddrTypeMask_def kSignatureSizeMask_def kSignatureOpShift_def
      kSignatureRegTypeShift_def kSignatureRegGroupShift_def kSignatureMemBaseTypeShift_def
      kSignatureMemIndexTypeShift_def kSignatureMemAddrTypeShift_def kSignatureSizeShift_def)

lemma constCtz_values:
  "constCtz 0x7 = 0"
  "constCtz 0xF8 = 3"
  "constCtz 0xF00 = 8"
  "constCtz 0x1F00 = 8"
  "constCtz 0x6000 = 13"
  "constCtz 0xFF000000 = 24"
  by code_simp+

lemma opType_eq: "opType p = op_signature p AND 7"
  by (simp add: opType_def getSignaturePart_def constCtz_values mask_values)

lemma join64_lo: "ucast (join64 lo hi) = lo"
  unfolding join64_def
  by (rule bit_word_eqI) (auto simp: bit_simps)

lemma join64_hi: "ucast (drop_bit 32 (join64 lo hi)) = hi"
  unfolding join64_def
  by (rule bit_word_eqI) (auto simp: bit_simps dest: bit_imp_le_length)

lemma join64_inject: "join64 a b = join64 c d \<longleftrightarrow> a = c \<and> b = d"
  by (metis join64_lo join64_hi)

lemma join64_split: "join64 (ucast v) (ucast (drop_bit 32 v)) = v"
  unfolding join64_def
  by (rule bit_word_eqI) (auto simp: bit_simps)

lemma isEqual_iff: "isEqual p q \<longleftrightarrow> p = (q :: Operand)"
  by (cases p, cases q) (auto simp: isEqual_def data64_def join64_inject)

lemma word_1_to_2: "(1 \<le> x \<and> x \<le> 2) = (x = 1 \<or> x = 2)" for x :: u32
  by (auto simp: word_le_nat_alt) unat_arith

lemma isRegOrMem_iff: "isRegOrMem p \<longleftrightarrow> isReg p \<or> isMem p"
  by (simp add: isRegOrMem_def isBetween_def isReg_def isMem_def kOpReg_def kOpMem_def word_1_to_2)


lemma join64_zero: "join64 0 0 = 0"
  by (simp add: join64_def)

lemma data64_zero_iff: "data64 p = 0 \<longleftrightarrow> op_data32_0 p = 0 \<and> op_data32_1 p = 0"
  using join64_inject [of "op_data32_0 p" "op_data32_1 p" 0 0]
  by (simp add: data64_def join64_zero)

lemma baseType_eq: "baseType p = drop_bit 3 (op_signature p) AND 0x1F"
  by (simp add: baseType_def getSignaturePart_def constCtz_values mask_values)

lemma field_and: "s AND push_bit c (mask w) = push_bit c (drop_bit c s AND mask w)"
  for s :: "'a::len word"
  by (rule bit_word_eqI) (auto simp: bit_simps)

lemma field_drop: "drop_bit c s AND mask w = drop_bit c (s AND push_bit c (mask w))"
  for s :: "'a::len word"
  by (rule bit_word_eqI) (auto simp: bit_simps dest: bit_imp_le_length)

lemma field_zero_iff: "drop_bit c s AND mask w = 0 \<longleftrightarrow> s AND push_bit c (mask w) = 0"
  for s :: "'a::len word"
proof
  assume "drop_bit c s AND mask w = 0"
  then show "s AND push_bit c (mask w) = 0" by (simp add: field_and)
next
  assume "s AND push_bit c (mask w) = 0"
  then show "drop_bit c s AND mask w = 0" by (simp add: field_drop)
qed

lemma mask_numerals:
  "(0x7 :: u32) = mask 3" "(0xF :: u32) = mask 4" "(0x1F :: u32) = mask 5"
  "(0x3 :: u32) = mask 2" "(0xFF :: u32) = mask 8"
  by (simp_all add: mask_eq_exp_minus_1)

lemma isOffset64Bit_iff_no_base: "isOffset64Bit p \<longleftrightarrow> \<not> hasBase p"
proof -
  have m: "(0x1F :: u32) = mask 5" "(0xF8 :: u32) = push_bit 3 (mask 5)"
    by (simp_all add: mask_eq_exp_minus_1)
  show ?thesis
    unfolding isOffset64Bit_def hasBase_def baseType_eq mask_values m
    by (simp only: field_zero_iff not_not)
qed

lemma virt_roundtrip: "virtIdToIndex (indexToVirtId i) = i"
  by (simp add: virtIdToIndex_def indexToVirtId_def)

lemma virt_consts: "kVirtIdMin = 256" "kVirtIdMax = 0xFFFFFFFE" "kVirtIdCount = 0xFFFFFEFF"
  by (simp_all add: kVirtIdMin_def kVirtIdMax_def kVirtIdCount_def kInvalidId_def)

lemma isVirtId_iff: "isVirtId v \<longleftrightarrow> kVirtIdMin \<le> v \<and> v \<le> kVirtIdMax"
  unfolding isVirtId_def virt_consts
  by unat_arith auto

lemma indexToVirtId_range:
  "i \<le> kVirtIdCount - 1 \<Longrightarrow> kVirtIdMin \<le> indexToVirtId i \<and> indexToVirtId i \<le> kVirtIdMax"
  unfolding indexToVirtId_def virt_consts
  by unat_arith auto

lemma isReg_BaseReg_kOpReg: "isReg (BaseReg kOpReg rid)"
  by (simp add: isReg_def opType_eq BaseReg_def Operand_init_def kOpReg_def)

section \<open>The claims\<close>

text \<open>
  C10. For every operand whose kind is register, \<^verbatim>\<open>isPhysReg\<close> holds exactly when
  the id is below 255 and \<^verbatim>\<open>isVirtReg\<close> exactly when it is above 255. So the id
  255 (\<^verbatim>\<open>kIdBad\<close>, the id of a default-constructed register) is neither physical
  nor virtual, and the global invalid-id sentinel, which means "no id", is
  classified as a virtual register.
\<close>

theorem register_id_classification:
  assumes "isReg p"
  shows "(isPhysReg p \<longleftrightarrow> id_op p < 255) \<and> (isVirtReg p \<longleftrightarrow> 255 < id_op p)
    \<and> (id_op p = kIdBad \<longrightarrow> \<not> isPhysReg p \<and> \<not> isVirtReg p)
    \<and> (id_op p = kInvalidId \<longrightarrow> isVirtReg p \<and> \<not> isPhysReg p)"
  using assms by (simp add: isPhysReg_def isVirtReg_def id_op_def kIdBad_def kInvalidId_def)

theorem register_id_classification_witness:
  "isReg (BaseReg kOpReg 3) \<and> isPhysReg (BaseReg kOpReg 3) \<and> \<not> isVirtReg (BaseReg kOpReg 3)
   \<and> isReg BaseReg_default \<and> id_op BaseReg_default = kIdBad
   \<and> \<not> isPhysReg BaseReg_default \<and> \<not> isVirtReg BaseReg_default
   \<and> isReg (BaseReg kOpReg kInvalidId) \<and> isVirtReg (BaseReg kOpReg kInvalidId)
   \<and> \<not> isPhysReg (BaseReg kOpReg kInvalidId)"
  using register_id_classification [of "BaseReg kOpReg 3"]
    register_id_classification [of BaseReg_default]
    register_id_classification [of "BaseReg kOpReg kInvalidId"]
    isReg_BaseReg_kOpReg [of 3] isReg_BaseReg_kOpReg [of kIdBad] isReg_BaseReg_kOpReg [of kInvalidId]
  by (simp add: BaseReg_default_def BaseReg_kSignature_def BaseReg_def id_op_def
      Operand_init_def kIdBad_def kInvalidId_def)

text \<open>
  C4. For a register operand \<^verbatim>\<open>isPhysReg\<close> and \<^verbatim>\<open>isVirtReg\<close> never both hold: an id
  below 255 is physical and not virtual, an id in the band from \<^verbatim>\<open>kVirtIdMin\<close> to
  \<^verbatim>\<open>kVirtIdMax\<close> (the invalid sentinel minus one) is virtual and not physical.
  Every allocator index from 0 to \<^verbatim>\<open>kVirtIdCount - 1\<close> is turned by
  \<^verbatim>\<open>indexToVirtId\<close> into an id of that band, and \<^verbatim>\<open>virtIdToIndex\<close> gives the index back.
\<close>

theorem register_id_space:
  "(isReg p \<longrightarrow> \<not> (isPhysReg p \<and> isVirtReg p))
   \<and> (isReg p \<and> id_op p < 255 \<longrightarrow> isPhysReg p \<and> \<not> isVirtReg p)
   \<and> (isReg p \<and> kVirtIdMin \<le> id_op p \<and> id_op p \<le> kVirtIdMax
        \<longrightarrow> isVirtReg p \<and> \<not> isPhysReg p \<and> isVirtId (id_op p))
   \<and> (i \<le> kVirtIdCount - 1
        \<longrightarrow> virtIdToIndex (indexToVirtId i) = i \<and> isVirtId (indexToVirtId i)
            \<and> kVirtIdMin \<le> indexToVirtId i \<and> indexToVirtId i \<le> kVirtIdMax)"
proof (intro conjI impI)
  show "\<not> (isPhysReg p \<and> isVirtReg p)"
    by (auto simp: isPhysReg_def isVirtReg_def)
next
  assume "isReg p \<and> id_op p < 255"
  then show "isPhysReg p" "\<not> isVirtReg p"
    by (auto simp: isPhysReg_def isVirtReg_def id_op_def)
next
  assume a: "isReg p \<and> kVirtIdMin \<le> id_op p \<and> id_op p \<le> kVirtIdMax"
  then have "255 < op_baseId p"
    unfolding virt_consts id_op_def by unat_arith
  with a show "isVirtReg p" "\<not> isPhysReg p"
    by (auto simp: isPhysReg_def isVirtReg_def)
  from a show "isVirtId (id_op p)" by (simp add: isVirtId_iff)
next
  assume b: "i \<le> kVirtIdCount - 1"
  show "virtIdToIndex (indexToVirtId i) = i" by (rule virt_roundtrip)
  from b show "kVirtIdMin \<le> indexToVirtId i" "indexToVirtId i \<le> kVirtIdMax"
    by (simp_all add: indexToVirtId_range)
  then show "isVirtId (indexToVirtId i)" by (simp add: isVirtId_iff)
qed

theorem register_id_space_witness:
  "isReg (BaseReg kOpReg 7) \<and> isPhysReg (BaseReg kOpReg 7) \<and> \<not> isVirtReg (BaseReg kOpReg 7)
   \<and> isReg (BaseReg kOpReg 256) \<and> isVirtReg (BaseReg kOpReg 256) \<and> \<not> isPhysReg (BaseReg kOpReg 256)
   \<and> isVirtId 256
   \<and> virtIdToIndex (indexToVirtId 0xFFFFFEFE) = 0xFFFFFEFE \<and> isVirtId (indexToVirtId 0xFFFFFEFE)
   \<and> indexToVirtId 0xFFFFFEFE = kVirtIdMax \<and> indexToVirtId 0 = kVirtIdMin"
  using register_id_space [of "BaseReg kOpReg 7" "0xFFFFFEFE"]
    register_id_space [of "BaseReg kOpReg 256" 0]
    isReg_BaseReg_kOpReg [of 7] isReg_BaseReg_kOpReg [of 256]
  by (simp add: BaseReg_def id_op_def Operand_init_def virt_consts indexToVirtId_def)

text \<open>
  C5. \<^verbatim>\<open>hasOffset\<close> is true if and only if the low offset word is non-zero, or the
  operand is in the 64-bit absolute mode (no base type) and the high word, the
  base id, is non-zero. In the based mode a non-zero base id alone does not make
  it true.
\<close>

theorem hasOffset_modes:
  "hasOffset p = (offsetLo32 p \<noteq> 0 \<or> (isOffset64Bit p \<and> baseId p \<noteq> 0))
   \<and> (\<not> isOffset64Bit p \<and> offsetLo32 p = 0 \<longrightarrow> \<not> hasOffset p)"
  by (simp add: hasOffset_def offsetLo32_def baseId_def bitMaskFromBool_def or_eq_0_iff)

theorem hasOffset_modes_witness:
  "\<not> isOffset64Bit (BaseMem \<lparr>d_baseType = 5, d_baseId = 3, d_indexType = 0, d_indexId = 0,
        d_offset = 0, d_size = 0, d_flags = 0\<rparr>)
   \<and> \<not> hasOffset (BaseMem \<lparr>d_baseType = 5, d_baseId = 3, d_indexType = 0, d_indexId = 0,
        d_offset = 0, d_size = 0, d_flags = 0\<rparr>)
   \<and> isOffset64Bit (BaseMem \<lparr>d_baseType = 0, d_baseId = 1, d_indexType = 0, d_indexId = 0,
        d_offset = 0, d_size = 0, d_flags = 0\<rparr>)
   \<and> hasOffset (BaseMem \<lparr>d_baseType = 0, d_baseId = 1, d_indexType = 0, d_indexId = 0,
        d_offset = 0, d_size = 0, d_flags = 0\<rparr>)"
  using hasOffset_modes [of "BaseMem \<lparr>d_baseType = 5, d_baseId = 3, d_indexType = 0,
        d_indexId = 0, d_offset = 0, d_size = 0, d_flags = 0\<rparr>"]
    hasOffset_modes [of "BaseMem \<lparr>d_baseType = 0, d_baseId = 1, d_indexType = 0,
        d_indexId = 0, d_offset = 0, d_size = 0, d_flags = 0\<rparr>"]
  by (simp add: isOffset64Bit_def baseType_eq BaseMem_def Operand_init_def offsetLo32_def
      mem_offsetLo32_def baseId_def kOpMem_def kSignatureMemBaseTypeShift_def
      kSignatureMemIndexTypeShift_def kSignatureSizeShift_def)

text \<open>
  C7. The kind value of a memory operand is the kind value of a register operand
  plus one, for any two such operands and for the operands that the constructors
  build; \<^verbatim>\<open>isRegOrMem\<close> is true exactly for the kinds register and memory, and false
  for none, immediate and label.
\<close>

theorem kind_adjacency:
  "kOpMem = kOpReg + 1
   \<and> (isMem m \<and> isReg r \<longrightarrow> opType m = opType r + 1)
   \<and> (d_flags d AND kSignatureOpMask = 0 \<longrightarrow>
        isMem (BaseMem d) \<and> isReg (BaseReg (RegTraits_kSignature t g s) rid)
        \<and> opType (BaseMem d) = opType (BaseReg (RegTraits_kSignature t g s) rid) + 1)
   \<and> (isRegOrMem p \<longleftrightarrow> isReg p \<or> isMem p)
   \<and> (isNone p \<or> isImm p \<or> isLabel p \<longrightarrow> \<not> isRegOrMem p)"
proof (intro conjI impI)
  show "kOpMem = kOpReg + 1" by (simp add: kOpMem_def kOpReg_def)
  show "opType m = opType r + 1" if "isMem m \<and> isReg r"
    using that by (simp add: isMem_def isReg_def kOpMem_def kOpReg_def)
  show "isRegOrMem p \<longleftrightarrow> isReg p \<or> isMem p" by (rule isRegOrMem_iff)
  show "\<not> isRegOrMem p" if "isNone p \<or> isImm p \<or> isLabel p"
    using that
    by (auto simp: isRegOrMem_iff isNone_def isImm_def isLabel_def isReg_def isMem_def
        opType_eq kOpImm_def kOpLabel_def kOpReg_def kOpMem_def)
next
  assume f: "d_flags d AND kSignatureOpMask = 0"
  have low: "push_bit n x AND 7 = 0" if "3 \<le> n" for x :: u32 and n
    using that by (intro bit_word_eqI) (auto simp: bit_simps mask_numerals)
  have m: "opType (BaseMem d) = 2"
    using f low [of 3 "d_baseType d"] low [of 8 "d_indexType d"] low [of 24 "d_size d"]
    by (simp add: opType_eq BaseMem_def Operand_init_def kOpMem_def mask_values
        kSignatureMemBaseTypeShift_def kSignatureMemIndexTypeShift_def kSignatureSizeShift_def
        bit.conj_disj_distrib2)
  have r: "opType (BaseReg (RegTraits_kSignature t g s) rid) = 1"
    using low [of 3 t] low [of 8 g] low [of 24 s]
    by (simp add: opType_eq BaseReg_def Operand_init_def RegTraits_kSignature_def kOpReg_def
        kSignatureOpShift_def kSignatureRegTypeShift_def kSignatureRegGroupShift_def
        kSignatureSizeShift_def bit.conj_disj_distrib2)
  from m show "isMem (BaseMem d)" by (simp add: isMem_def kOpMem_def)
  from r show "isReg (BaseReg (RegTraits_kSignature t g s) rid)" by (simp add: isReg_def kOpReg_def)
  from m r show "opType (BaseMem d) = opType (BaseReg (RegTraits_kSignature t g s) rid) + 1"
    by simp
qed

theorem kind_adjacency_witness:
  "isMem BaseMem_default \<and> isReg BaseReg_default
   \<and> opType BaseMem_default = opType BaseReg_default + 1
   \<and> isRegOrMem BaseMem_default \<and> isRegOrMem BaseReg_default
   \<and> isNone Operand_default \<and> \<not> isRegOrMem Operand_default
   \<and> isImm (Imm 5) \<and> \<not> isRegOrMem (Imm 5)
   \<and> isLabel (Label 0) \<and> \<not> isRegOrMem (Label 0)
   \<and> opType (BaseMem \<lparr>d_baseType = 5, d_baseId = 3, d_indexType = 0, d_indexId = 0,
        d_offset = 8, d_size = 4, d_flags = 0\<rparr>) = opType (BaseReg (RegTraits_kSignature 5 0 4) 3) + 1"
  using kind_adjacency [of BaseMem_default BaseReg_default
      "\<lparr>d_baseType = 5, d_baseId = 3, d_indexType = 0, d_indexId = 0,
        d_offset = 8, d_size = 4, d_flags = 0\<rparr>" 5 0 4 3 BaseMem_default]
    kind_adjacency [of BaseMem_default BaseReg_default
      "\<lparr>d_baseType = 5, d_baseId = 3, d_indexType = 0, d_indexId = 0,
        d_offset = 8, d_size = 4, d_flags = 0\<rparr>" 5 0 4 3 BaseReg_default]
    kind_adjacency [of BaseMem_default BaseReg_default
      "\<lparr>d_baseType = 5, d_baseId = 3, d_indexType = 0, d_indexId = 0,
        d_offset = 8, d_size = 4, d_flags = 0\<rparr>" 5 0 4 3 Operand_default]
    kind_adjacency [of BaseMem_default BaseReg_default
      "\<lparr>d_baseType = 5, d_baseId = 3, d_indexType = 0, d_indexId = 0,
        d_offset = 8, d_size = 4, d_flags = 0\<rparr>" 5 0 4 3 "Imm 5"]
    kind_adjacency [of BaseMem_default BaseReg_default
      "\<lparr>d_baseType = 5, d_baseId = 3, d_indexType = 0, d_indexId = 0,
        d_offset = 8, d_size = 4, d_flags = 0\<rparr>" 5 0 4 3 "Label 0"]
  by (simp add: isMem_def isReg_def isNone_def isImm_def isLabel_def opType_eq
      BaseMem_default_def BaseReg_default_def BaseReg_kSignature_def Operand_default_def
      Imm_def Label_def Operand_init_def kOpNone_def kOpReg_def kOpMem_def kOpImm_def
      kOpLabel_def)


subsection \<open>Resetting\<close>

lemma reset_eq: "reset p = Operand_default" for p :: Operand
  by (cases p) (simp add: reset_def set_data64_def Operand_default_def kOpNone_def)

lemma Label_reset_eq: "Label_reset p = Label_default" for p :: Operand
  by (cases p) (simp add: Label_reset_def set_data64_def Label_default_def Operand_init_def)

lemma BaseMem_reset_eq: "BaseMem_reset p = BaseMem_default" for p :: Operand
  by (cases p) (simp add: BaseMem_reset_def set_data64_def BaseMem_default_def Operand_init_def)

text \<open>
  C2, as stated: \<^verbatim>\<open>reset()\<close> on an operand of any kind gives the all-zero none
  operand, for which \<^verbatim>\<open>isNone\<close> holds. It fails on a label: \<^verbatim>\<open>Label::reset\<close> leaves the
  signature \<^verbatim>\<open>kOpLabel\<close> and the invalid id.
\<close>

theorem reset_label_counterexample:
  "reset_of ClassLabel (Label 7) \<noteq> Operand_default
   \<and> \<not> isEqual (reset_of ClassLabel (Label 7)) Operand_default
   \<and> \<not> isNone (reset_of ClassLabel (Label 7))"
  by (simp add: isEqual_iff Label_reset_eq Label_default_def Operand_default_def
      Operand_init_def isNone_def kOpLabel_def kOpNone_def)

text \<open>
  C2, amended. \<^verbatim>\<open>Operand_::reset\<close>, which is the \<^verbatim>\<open>reset()\<close> of a generic operand, of a
  register and of an immediate, gives the all-zero none operand whatever the
  operand held, and \<^verbatim>\<open>isNone\<close> holds for it and for a default-constructed operand.
  The \<^verbatim>\<open>reset()\<close> of a label gives the default label (kind label, invalid id) and
  the \<^verbatim>\<open>reset()\<close> of a memory operand gives the default memory operand (kind memory,
  the rest zero); \<^verbatim>\<open>isNone\<close> is false for both.
\<close>

theorem reset_by_class:
  "reset p = Operand_default \<and> isEqual (reset p) Operand_default
   \<and> isNone (reset p) \<and> isNone Operand_default
   \<and> reset_of c p = (case c of ClassLabel \<Rightarrow> Label_default
                       | ClassBaseMem \<Rightarrow> BaseMem_default | _ \<Rightarrow> Operand_default)
   \<and> isNone (reset_of c p) = (c \<noteq> ClassLabel \<and> c \<noteq> ClassBaseMem)
   \<and> isLabel (reset_of ClassLabel p) \<and> id_op (reset_of ClassLabel p) = kInvalidId
   \<and> isMem (reset_of ClassBaseMem p)"
  by (cases c)
    (simp_all add: reset_eq Label_reset_eq BaseMem_reset_eq isEqual_iff isNone_def
      Operand_default_def Label_default_def BaseMem_default_def Operand_init_def
      isLabel_def isMem_def opType_eq id_op_def kOpNone_def kOpLabel_def kOpMem_def)

theorem reset_by_class_witness:
  "reset_of ClassBaseReg (BaseReg (RegTraits_kSignature 5 0 4) 3) = Operand_default
   \<and> isNone (reset_of ClassImm (Imm 5))
   \<and> reset_of ClassLabel (Label 7) = Label_default
   \<and> \<not> isNone (reset_of ClassBaseMem BaseMem_default)"
  using reset_by_class [of "BaseReg (RegTraits_kSignature 5 0 4) 3" ClassBaseReg]
    reset_by_class [of "Imm 5" ClassImm]
    reset_by_class [of "Label 7" ClassLabel]
    reset_by_class [of BaseMem_default ClassBaseMem]
  by (simp add: isNone_def BaseMem_default_def Operand_init_def kOpMem_def)

text \<open>
  C9. A full register value with kind register and zero payload, converted to
  \<^verbatim>\<open>RegOnly\<close> and back, is equal to the original, for every signature and id that
  the register constructor takes; the accessors of the compact value (signature,
  id, none, register, physical, virtual, type, group) agree with those of the full
  value; and the full value made from a compact one has zero payload and converts
  back to it.
\<close>

theorem RegOnly_roundtrip:
  assumes "isReg r" and "data64 r = 0"
  shows "toReg (RegOnly_init_reg r) = r
    \<and> isEqual (toReg (RegOnly_init_reg r)) r
    \<and> RegOnly_signature (RegOnly_init_reg r) = signature r
    \<and> RegOnly_id (RegOnly_init_reg r) = id_op r
    \<and> RegOnly_isNone (RegOnly_init_reg r) = isNone r
    \<and> RegOnly_isReg (RegOnly_init_reg r) = isReg r
    \<and> RegOnly_isPhysReg (RegOnly_init_reg r) = isPhysReg r
    \<and> RegOnly_isPhysReg (RegOnly_init_reg r) = BaseReg_isPhysReg r
    \<and> RegOnly_isVirtReg (RegOnly_init_reg r) = isVirtReg r
    \<and> RegOnly_isVirtReg (RegOnly_init_reg r) = BaseReg_isVirtReg r
    \<and> RegOnly_type (RegOnly_init_reg r) = BaseReg_type r
    \<and> RegOnly_group (RegOnly_init_reg r) = BaseReg_group r
    \<and> toReg (RegOnly_init_reg (BaseReg sg rid)) = BaseReg sg rid
    \<and> data64 (toReg x) = 0
    \<and> RegOnly_init_reg (toReg x) = x"
proof -
  from assms(2) have z: "op_data32_0 r = 0" "op_data32_1 r = 0"
    by (simp_all add: data64_zero_iff)
  then have rt: "toReg (RegOnly_init_reg r) = r"
    by (cases r) (simp add: toReg_def RegOnly_init_reg_def RegOnly_init_def BaseReg_def
        Operand_init_def signature_def id_op_def)
  from assms(1) have nz: "op_signature r \<noteq> 0"
    by (auto simp: isReg_def opType_eq kOpReg_def)
  have x: "RegOnly_init_reg (toReg x) = x"
    by (cases x) (simp add: toReg_def RegOnly_init_reg_def RegOnly_init_def BaseReg_def
        Operand_init_def signature_def id_op_def)
  show ?thesis
    using assms(1) nz rt x
    by (simp add: isEqual_iff RegOnly_signature_def RegOnly_id_def RegOnly_isNone_def
        RegOnly_isReg_def RegOnly_isPhysReg_def RegOnly_isVirtReg_def RegOnly_type_def
        RegOnly_group_def RegOnly_getSignaturePart_def RegOnly_init_reg_def RegOnly_init_def
        signature_def id_op_def isNone_def isPhysReg_def isVirtReg_def BaseReg_isPhysReg_def
        BaseReg_isVirtReg_def BaseReg_type_def BaseReg_group_def getSignaturePart_def
        kIdBad_def toReg_def BaseReg_def Operand_init_def data64_def join64_zero)
qed

theorem RegOnly_roundtrip_witness:
  "isReg (BaseReg (RegTraits_kSignature 5 0 4) 3)
   \<and> data64 (BaseReg (RegTraits_kSignature 5 0 4) 3) = 0
   \<and> toReg (RegOnly_init_reg (BaseReg (RegTraits_kSignature 5 0 4) 3))
       = BaseReg (RegTraits_kSignature 5 0 4) 3
   \<and> RegOnly_isPhysReg (RegOnly_init_reg (BaseReg (RegTraits_kSignature 5 0 4) 3))"
proof -
  have a: "isReg (BaseReg (RegTraits_kSignature 5 0 4) 3)"
    by (simp add: isReg_def opType_eq BaseReg_def Operand_init_def RegTraits_kSignature_def
        kOpReg_def kSignatureOpShift_def kSignatureRegTypeShift_def
        kSignatureRegGroupShift_def kSignatureSizeShift_def)
  have b: "data64 (BaseReg (RegTraits_kSignature 5 0 4) 3) = 0"
    by (simp add: data64_def BaseReg_def Operand_init_def join64_zero)
  show ?thesis
    using a b RegOnly_roundtrip [OF a b]
    by (simp add: isPhysReg_def BaseReg_def Operand_init_def)
qed


subsection \<open>Arithmetic of the offset\<close>

lemma ucast_low32: "(ucast (x AND 0xFFFFFFFF) :: u32) = ucast x" for x :: u64
proof -
  have m: "(0xFFFFFFFF :: u64) = mask 32" by (simp add: mask_eq_exp_minus_1)
  have "(ucast (x AND mask 32) :: u32) = ucast x"
    by (rule bit_word_eqI) (auto simp: bit_simps)
  then show ?thesis by (simp only: m)
qed

lemma uint_add_sint64: "uint (a + k) = (uint a + sint k) mod 2 ^ 64" for a k :: u64
proof -
  have "a + k = word_of_int (uint a + sint k)" by simp
  then show ?thesis by (simp only: uint_word_of_int) simp
qed

lemma ucast_of_sint: "(ucast k :: u32) = word_of_int (sint k)" for k :: u64
  by (rule bit_word_eqI) (auto simp: bit_simps bit_word_of_int_iff bit_sint_iff)

lemma uint_add_sint32:
  "uint (a + ucast k) = (uint a + sint k) mod 2 ^ 32" for a :: u32 and k :: u64
proof -
  have "a + ucast k = word_of_int (uint a + sint k)" by (simp add: ucast_of_sint)
  then show ?thesis by (simp only: uint_word_of_int) simp
qed


lemma add_int64_Some:
  assumes "- (2 ^ 63) \<le> sint a + sint b" and "sint a + sint b < 2 ^ 63"
  shows "add_int64 a b = Some (a + b)"
  using assms by (simp add: add_int64_def)

lemma sint_add_in_range:
  fixes a b :: u64
  assumes "- (2 ^ 63) \<le> sint a + sint b" and "sint a + sint b < 2 ^ 63"
  shows "sint (a + b) = sint a + sint b"
proof -
  have "sint (a + b) = signed_take_bit 63 (sint a + sint b)"
    by (simp add: sint_word_ariths)
  also have "\<dots> = sint a + sint b"
    using assms by (rule signed_take_bit_int_eq_self)
  finally show ?thesis .
qed

lemma addOffset_abs:
  assumes "baseType p = 0"
    and "- (2 ^ 63) \<le> sint (offset p) + sint k" and "sint (offset p) + sint k < 2 ^ 63"
  shows "addOffset k p = Some (p\<lparr>op_data32_1 := ucast (offset p + k),
            op_baseId := ucast (drop_bit 32 (offset p + k))\<rparr>)"
proof -
  have o: "offset p = ucast (mem_offsetLo32 p) OR push_bit 32 (ucast (op_baseId p))"
    using assms(1) by (simp add: offset_def isOffset64Bit_def)
  have "add_int64 k (offset p) = Some (k + offset p)"
    using assms(2,3) by (intro add_int64_Some) (simp_all add: add.commute)
  then show ?thesis
    using assms(1)
    by (simp add: addOffset_def isOffset64Bit_def o [symmetric] ucast_low32 add.commute)
qed

lemma addOffset_abs_None:
  assumes "baseType p = 0"
    and "sint (offset p) + sint k < - (2 ^ 63) \<or> 2 ^ 63 \<le> sint (offset p) + sint k"
  shows "addOffset k p = None"
proof -
  have o: "offset p = ucast (mem_offsetLo32 p) OR push_bit 32 (ucast (op_baseId p))"
    using assms(1) by (simp add: offset_def isOffset64Bit_def)
  have "add_int64 k (offset p) = None"
    using assms(2) by (auto simp: add_int64_def add.commute)
  then show ?thesis
    using assms(1) by (simp add: addOffset_def isOffset64Bit_def o [symmetric])
qed

lemma addOffset_based:
  assumes "baseType p \<noteq> 0"
  shows "addOffset k p = Some (p\<lparr>op_data32_1 := mem_offsetLo32 p + ucast k\<rparr>)"
  using assms by (simp add: addOffset_def isOffset64Bit_def ucast_low32)


lemma addOffset_None_iff:
  "addOffset k p = None \<longleftrightarrow>
     baseType p = 0
     \<and> (sint (offset p) + sint k < - (2 ^ 63) \<or> 2 ^ 63 \<le> sint (offset p) + sint k)"
proof (cases "baseType p = 0")
  case True
  show ?thesis
  proof (cases "- (2 ^ 63) \<le> sint (offset p) + sint k \<and> sint (offset p) + sint k < 2 ^ 63")
    case True
    with \<open>baseType p = 0\<close> show ?thesis by (auto simp: addOffset_abs)
  next
    case False
    then have "sint (offset p) + sint k < - (2 ^ 63) \<or> 2 ^ 63 \<le> sint (offset p) + sint k"
      by auto
    with \<open>baseType p = 0\<close> show ?thesis by (simp add: addOffset_abs_None)
  qed
next
  case False
  then show ?thesis by (simp add: addOffset_based)
qed

text \<open>
  Where the signed sum of address and delta stays inside \<^verbatim>\<open>int64_t\<close>, the absolute
  mode gives \<open>(A + k) mod 2 ^ 64\<close> split over the low payload word and the base id.
  The based mode adds to the low word only, modulo \<open>2 ^ 32\<close>, and keeps the base id.
\<close>

lemma addOffset_in_range:
  "(baseType p = 0 \<and> - (2 ^ 63) \<le> sint (offset p) + sint k
      \<and> sint (offset p) + sint k < 2 ^ 63 \<longrightarrow>
      (\<exists>q. addOffset k p = Some q
         \<and> offset q = offset p + k
         \<and> uint (offset q) = (uint (offset p) + sint k) mod 2 ^ 64
         \<and> sint (offset q) = sint (offset p) + sint k
         \<and> offsetLo32 q = ucast (offset p + k)
         \<and> baseId q = ucast (drop_bit 32 (offset p + k))
         \<and> baseType q = 0 \<and> signature q = signature p \<and> indexId q = indexId p))
   \<and> (baseType p \<noteq> 0 \<longrightarrow>
      (\<exists>q. addOffset k p = Some q
         \<and> offsetLo32 q = offsetLo32 p + ucast k
         \<and> uint (offsetLo32 q) = (uint (offsetLo32 p) + sint k) mod 2 ^ 32
         \<and> baseId q = baseId p
         \<and> baseType q = baseType p \<and> signature q = signature p \<and> indexId q = indexId p))"
proof (intro conjI impI)
  assume a: "baseType p = 0 \<and> - (2 ^ 63) \<le> sint (offset p) + sint k
      \<and> sint (offset p) + sint k < 2 ^ 63"
  let ?q = "p\<lparr>op_data32_1 := ucast (offset p + k),
      op_baseId := ucast (drop_bit 32 (offset p + k))\<rparr>"
  from a have s: "addOffset k p = Some ?q" by (simp add: addOffset_abs)
  from a have bt: "baseType ?q = 0" by (simp add: baseType_eq)
  have off: "offset ?q = offset p + k"
    using bt by (simp add: offset_def isOffset64Bit_def mem_offsetLo32_def
        join64_split [unfolded join64_def])
  have u: "uint (offset ?q) = (uint (offset p) + sint k) mod 2 ^ 64"
    by (simp only: off uint_add_sint64)
  have si: "sint (offset ?q) = sint (offset p) + sint k"
    using a by (simp only: off sint_add_in_range)
  have rest: "offsetLo32 ?q = ucast (offset p + k)"
    "baseId ?q = ucast (drop_bit 32 (offset p + k))"
    "signature ?q = signature p" "indexId ?q = indexId p"
    by (simp_all add: offsetLo32_def mem_offsetLo32_def baseId_def signature_def indexId_def
        mem_indexId_def)
  show "\<exists>q. addOffset k p = Some q
         \<and> offset q = offset p + k
         \<and> uint (offset q) = (uint (offset p) + sint k) mod 2 ^ 64
         \<and> sint (offset q) = sint (offset p) + sint k
         \<and> offsetLo32 q = ucast (offset p + k)
         \<and> baseId q = ucast (drop_bit 32 (offset p + k))
         \<and> baseType q = 0 \<and> signature q = signature p \<and> indexId q = indexId p"
    by (intro exI [of _ ?q] conjI s off u si rest bt)
next
  assume a: "baseType p \<noteq> 0"
  let ?q = "p\<lparr>op_data32_1 := mem_offsetLo32 p + ucast k\<rparr>"
  from a have s: "addOffset k p = Some ?q" by (simp add: addOffset_based)
  have lo: "offsetLo32 ?q = offsetLo32 p + ucast k"
    by (simp add: offsetLo32_def mem_offsetLo32_def)
  have u: "uint (offsetLo32 ?q) = (uint (offsetLo32 p) + sint k) mod 2 ^ 32"
    by (simp only: lo uint_add_sint32)
  have rest: "baseId ?q = baseId p" "baseType ?q = baseType p"
    "signature ?q = signature p" "indexId ?q = indexId p"
    by (simp_all add: baseId_def baseType_eq signature_def indexId_def mem_indexId_def)
  show "\<exists>q. addOffset k p = Some q
         \<and> offsetLo32 q = offsetLo32 p + ucast k
         \<and> uint (offsetLo32 q) = (uint (offsetLo32 p) + sint k) mod 2 ^ 32
         \<and> baseId q = baseId p
         \<and> baseType q = baseType p \<and> signature q = signature p \<and> indexId q = indexId p"
    by (intro exI [of _ ?q] conjI s lo u rest)
qed

text \<open>
  The boundary values \<open>A = 0\<close> with \<open>k = - 1\<close> and \<open>A = 2 ^ 64 - 1\<close> with \<open>k = 1\<close>
  (as \<^verbatim>\<open>int64_t\<close>: \<open>- 1 + 1\<close>) have a signed sum in range, as have the based cases.
\<close>

lemma addOffset_boundary_cases:
  "addOffset (- 1) (Operand_init kOpMem 0 0 0)
     = Some (Operand_init kOpMem 0xFFFFFFFF 0 0xFFFFFFFF)
   \<and> addOffset 1 (Operand_init kOpMem 0xFFFFFFFF 0 0xFFFFFFFF)
     = Some (Operand_init kOpMem 0 0 0)
   \<and> addOffset 1 (Operand_init 0x2A 3 0 0xFFFFFFFF) = Some (Operand_init 0x2A 3 0 0)
   \<and> addOffset 1 (Operand_init 0x2A 3 0 0x7FFFFFFF) = Some (Operand_init 0x2A 3 0 0x80000000)"
proof -
  have m: "(- 1 :: u64) = 0xFFFFFFFFFFFFFFFF" by simp
  have s: "sint (0xFFFFFFFFFFFFFFFF :: u64) = - 1" by simp
  show ?thesis
    unfolding m
    by (simp add: addOffset_def add_int64_def isOffset64Bit_def baseType_eq Operand_init_def
        kOpMem_def mem_offsetLo32_def s)
qed

text \<open>
  C1. The claim asks, for every operand in the 64-bit absolute mode holding the
  address \<open>A\<close>, that \<^verbatim>\<open>addOffset(k)\<close> yields \<open>(A + k) mod 2 ^ 64\<close> across the low
  payload word and the base id, and in the based mode a wrap of the low word
  alone. The absolute branch adds in \<^verbatim>\<open>int64_t\<close>: for the memory operand holding
  \<open>A = 2 ^ 63 - 1\<close> and \<open>k = 1\<close> the signed sum is \<open>2 ^ 63\<close>, outside \<^verbatim>\<open>int64_t\<close>, so
  the addition is undefined and \<^verbatim>\<open>addOffset\<close> has no result there, where the claim
  asks for the address \<open>2 ^ 63\<close>.
\<close>

theorem addOffset_signed_overflow:
  "isMem (Operand_init kOpMem 0x7FFFFFFF 0 0xFFFFFFFF)
   \<and> baseType (Operand_init kOpMem 0x7FFFFFFF 0 0xFFFFFFFF) = 0
   \<and> offset (Operand_init kOpMem 0x7FFFFFFF 0 0xFFFFFFFF) = 0x7FFFFFFFFFFFFFFF
   \<and> sint (offset (Operand_init kOpMem 0x7FFFFFFF 0 0xFFFFFFFF)) + sint (1 :: u64) = 2 ^ 63
   \<and> addOffset 1 (Operand_init kOpMem 0x7FFFFFFF 0 0xFFFFFFFF) = None"
  by (simp add: addOffset_def add_int64_def isOffset64Bit_def baseType_eq offset_def
      Operand_init_def kOpMem_def mem_offsetLo32_def isMem_def opType_eq)

subsection \<open>Fields of a signature\<close>

lemma bit_below: "i < n" if "x < 2 ^ n" "bit x i" for x :: "'a::len word"
proof -
  from that(1) have e: "x AND mask n = x" by (rule less_mask_eq)
  from that(2) have "bit (x AND mask n) i" by (simp only: e)
  then show ?thesis by (simp add: bit_simps)
qed

lemma field_exprs:
  "opType p = op_signature p AND mask 3"
  "baseType p = drop_bit 3 (op_signature p) AND mask 5"
  "indexType p = drop_bit 8 (op_signature p) AND mask 5"
  "size_op p = drop_bit 24 (op_signature p) AND mask 8"
  by (simp_all add: opType_def baseType_def indexType_def size_op_def getSignaturePart_def
      constCtz_values mask_values mask_eq_exp_minus_1)

lemma field_or:
  "drop_bit c (a OR b) AND mask w = (drop_bit c a AND mask w) OR (drop_bit c b AND mask w)"
  for a b :: "'a::len word"
  by (rule bit_word_eqI) (auto simp: bit_simps)

lemma get_own:
  fixes x :: "'a::len word"
  assumes "x < 2 ^ w" and "c + w \<le> LENGTH('a)"
  shows "drop_bit c (push_bit c x) AND mask w = x"
proof (rule bit_word_eqI)
  fix n assume "n < LENGTH('a)"
  show "bit (drop_bit c (push_bit c x) AND mask w) n = bit x n"
  proof (cases "bit x n")
    case True
    then have "n < w" by (rule bit_below [OF assms(1)])
    with True assms(2) show ?thesis by (simp add: bit_simps)
  next
    case False
    then show ?thesis by (simp add: bit_simps)
  qed
qed

lemma get_below:
  fixes x :: "'a::len word"
  assumes "c + w \<le> c'"
  shows "drop_bit c (push_bit c' x) AND mask w = 0"
  using assms by (intro bit_word_eqI) (auto simp: bit_simps)

lemma get_above:
  fixes x :: "'a::len word"
  assumes "x < 2 ^ w'" and "c' + w' \<le> c"
  shows "drop_bit c (push_bit c' x) AND mask w = 0"
proof (rule bit_word_eqI)
  fix n assume "n < LENGTH('a)"
  have "\<not> bit x (c + n - c')"
    using bit_below [OF assms(1), of "c + n - c'"] assms(2) by auto
  then show "bit (drop_bit c (push_bit c' x) AND mask w) n = bit (0 :: 'a word) n"
    by (simp add: bit_simps)
qed

lemma and_part_zero:
  fixes fl :: "'a::len word"
  assumes "fl AND M = 0" and "m AND M = m"
  shows "fl AND m = 0"
proof -
  have "fl AND m = (fl AND M) AND m"
    using assms(2) by (metis and.assoc and.commute)
  then show ?thesis by (simp add: assms(1))
qed

text \<open>
  C3. For decomposed memory fields whose base type and index type fit 5 bits,
  whose size fits 8 bits and whose flags share no bit with the kind, base-type,
  index-type and size fields, the memory operand constructed from them gives back
  base type, base id, index type, index id, low offset and size exactly, and its
  kind is memory.
\<close>

theorem BaseMem_roundtrip:
  assumes bt: "d_baseType d < 2 ^ 5" and it: "d_indexType d < 2 ^ 5" and sz: "d_size d < 2 ^ 8"
    and fl: "d_flags d AND (kSignatureOpMask OR kSignatureMemBaseTypeMask
               OR kSignatureMemIndexTypeMask OR kSignatureSizeMask) = 0"
  shows "baseType (BaseMem d) = d_baseType d \<and> baseId (BaseMem d) = d_baseId d
    \<and> indexType (BaseMem d) = d_indexType d \<and> indexId (BaseMem d) = d_indexId d
    \<and> offsetLo32 (BaseMem d) = d_offset d \<and> size_op (BaseMem d) = d_size d
    \<and> opType (BaseMem d) = kOpMem"
proof -
  have one: "(1 :: u32) < 2 ^ 1" by simp
  have sg: "op_signature (BaseMem d) = push_bit 1 1 OR push_bit 3 (d_baseType d)
      OR push_bit 8 (d_indexType d) OR push_bit 24 (d_size d) OR d_flags d"
    by (simp add: BaseMem_def Operand_init_def kOpMem_def kSignatureMemBaseTypeShift_def
        kSignatureMemIndexTypeShift_def kSignatureSizeShift_def)
  have M: "kSignatureOpMask OR kSignatureMemBaseTypeMask OR kSignatureMemIndexTypeMask
      OR kSignatureSizeMask = 0xFF001FFF"
    by (simp add: mask_values)
  have p: "push_bit 0 (mask 3) AND 0xFF001FFF = (push_bit 0 (mask 3) :: u32)"
    "push_bit 3 (mask 5) AND 0xFF001FFF = (push_bit 3 (mask 5) :: u32)"
    "push_bit 8 (mask 5) AND 0xFF001FFF = (push_bit 8 (mask 5) :: u32)"
    "push_bit 24 (mask 8) AND 0xFF001FFF = (push_bit 24 (mask 8) :: u32)"
    by (simp_all add: mask_eq_exp_minus_1)
  note z = and_part_zero [OF fl [unfolded M]]
  have f0: "d_flags d AND mask 3 = 0"
    using z [OF p(1)] by simp
  have f3: "drop_bit 3 (d_flags d) AND mask 5 = 0"
    by (simp only: field_zero_iff z [OF p(2)])
  have f8: "drop_bit 8 (d_flags d) AND mask 5 = 0"
    by (simp only: field_zero_iff z [OF p(3)])
  have f24: "drop_bit 24 (d_flags d) AND mask 8 = 0"
    by (simp only: field_zero_iff z [OF p(4)])
  have bT: "baseType (BaseMem d) = d_baseType d"
    unfolding field_exprs sg field_or
    by (simp add: get_own [OF bt] get_below get_above [OF one] f3)
  have iT: "indexType (BaseMem d) = d_indexType d"
    unfolding field_exprs sg field_or
    by (simp add: get_own [OF it] get_below get_above [OF one] get_above [OF bt] f8)
  have sZ: "size_op (BaseMem d) = d_size d"
    unfolding field_exprs sg field_or
    by (simp add: get_own [OF sz] get_above [OF one] get_above [OF bt] get_above [OF it] f24)
  have low: "push_bit n x AND 7 = 0" if "3 \<le> n" for x :: u32 and n
    using that by (intro bit_word_eqI) (auto simp: bit_simps mask_numerals)
  have f0': "d_flags d AND 7 = 0"
    using f0 by (simp add: mask_eq_exp_minus_1)
  have oT: "opType (BaseMem d) = kOpMem"
    unfolding opType_eq sg
    by (simp add: bit.conj_disj_distrib2 low f0' kOpMem_def)
  show ?thesis
    using bT iT sZ oT
    by (simp add: baseId_def indexId_def offsetLo32_def mem_indexId_def mem_offsetLo32_def
        BaseMem_def Operand_init_def)
qed

theorem BaseMem_roundtrip_witness:
  "baseType (BaseMem \<lparr>d_baseType = 5, d_baseId = 3, d_indexType = 6, d_indexId = 9,
      d_offset = - 8, d_size = 4, d_flags = 0x2000\<rparr>) = 5
   \<and> baseId (BaseMem \<lparr>d_baseType = 5, d_baseId = 3, d_indexType = 6, d_indexId = 9,
      d_offset = - 8, d_size = 4, d_flags = 0x2000\<rparr>) = 3
   \<and> indexType (BaseMem \<lparr>d_baseType = 5, d_baseId = 3, d_indexType = 6, d_indexId = 9,
      d_offset = - 8, d_size = 4, d_flags = 0x2000\<rparr>) = 6
   \<and> indexId (BaseMem \<lparr>d_baseType = 5, d_baseId = 3, d_indexType = 6, d_indexId = 9,
      d_offset = - 8, d_size = 4, d_flags = 0x2000\<rparr>) = 9
   \<and> sint (offsetLo32 (BaseMem \<lparr>d_baseType = 5, d_baseId = 3, d_indexType = 6, d_indexId = 9,
      d_offset = - 8, d_size = 4, d_flags = 0x2000\<rparr>)) = - 8
   \<and> size_op (BaseMem \<lparr>d_baseType = 5, d_baseId = 3, d_indexType = 6, d_indexId = 9,
      d_offset = - 8, d_size = 4, d_flags = 0x2000\<rparr>) = 4"
proof -
  let ?d = "\<lparr>d_baseType = 5, d_baseId = 3, d_indexType = 6, d_indexId = 9,
      d_offset = - 8, d_size = 4, d_flags = 0x2000\<rparr> :: Decomposed"
  have h: "d_baseType ?d < 2 ^ 5" "d_indexType ?d < 2 ^ 5" "d_size ?d < 2 ^ 8"
    "d_flags ?d AND (kSignatureOpMask OR kSignatureMemBaseTypeMask
       OR kSignatureMemIndexTypeMask OR kSignatureSizeMask) = 0"
    by (simp_all add: mask_values)
  show ?thesis
    using BaseMem_roundtrip [OF h] by simp
qed

lemma set_then_get:
  fixes v :: "'a::len word"
  assumes "v AND NOT (drop_bit c m) = 0"
  shows "drop_bit c ((s AND NOT m) OR push_bit c v) AND drop_bit c m = v"
proof (rule bit_word_eqI)
  fix n assume "n < LENGTH('a)"
  have imp: "bit m (c + n)" if "bit v n"
  proof -
    from assms have "\<not> bit (v AND NOT (drop_bit c m)) n" by simp
    with that bit_imp_le_length [OF that] show ?thesis by (simp add: bit_simps)
  qed
  show "bit (drop_bit c ((s AND NOT m) OR push_bit c v) AND drop_bit c m) n = bit v n"
  proof (cases "bit v n")
    case True
    with imp [OF True] bit_imp_le_length [OF imp [OF True]] show ?thesis
      by (simp add: bit_simps)
  next
    case False
    then show ?thesis by (auto simp: bit_simps)
  qed
qed

lemma set_frame:
  fixes v :: "'a::len word"
  assumes "v AND NOT (drop_bit c m) = 0"
  shows "((s AND NOT m) OR push_bit c v) AND NOT m = s AND NOT m"
proof (rule bit_word_eqI)
  fix n assume n: "n < LENGTH('a)"
  have "bit m n" if "c \<le> n" "bit v (n - c)"
  proof -
    from assms have "\<not> bit (v AND NOT (drop_bit c m)) (n - c)" by simp
    with that bit_imp_le_length [OF that(2)] show ?thesis by (simp add: bit_simps)
  qed
  then show "bit (((s AND NOT m) OR push_bit c v) AND NOT m) n = bit (s AND NOT m) n"
    using n by (auto simp: bit_simps)
qed

lemma get_as_and: "drop_bit c s AND drop_bit c m = drop_bit c (s AND m)"
  for s :: "'a::len word"
  by (rule bit_word_eqI) (auto simp: bit_simps)

lemma other_field_kept:
  fixes s :: "'a::len word"
  assumes "s' AND NOT m = s AND NOT m" and "m' AND m = 0"
  shows "s' AND m' = s AND m'"
proof (rule bit_word_eqI)
  fix n assume n: "n < LENGTH('a)"
  from assms(1) have "bit (s' AND NOT m) n = bit (s AND NOT m) n" by (simp only:)
  moreover from assms(2) have "\<not> bit (m' AND m) n" by (simp only: bit_0_eq) simp
  ultimately show "bit (s' AND m') n = bit (s AND m') n"
    using n by (auto simp: bit_simps)
qed

lemma fits_iff_assert:
  fixes v :: u32
  assumes "w < 32"
  shows "v AND NOT (mask w) = 0 \<longleftrightarrow> v < 2 ^ w"
proof -
  have "v AND NOT (mask w) = 0 \<longleftrightarrow> v AND mask w = v"
  proof
    assume z: "v AND NOT (mask w) = 0"
    show "v AND mask w = v"
    proof (rule bit_word_eqI)
      fix n assume n: "n < LENGTH(32)"
      from z have "\<not> bit (v AND NOT (mask w)) n" by (simp only: bit_0_eq) simp
      with n show "bit (v AND mask w) n = bit v n" by (auto simp: bit_simps)
    qed
  next
    assume e: "v AND mask w = v"
    show "v AND NOT (mask w) = 0"
    proof (rule bit_word_eqI)
      fix n assume "n < LENGTH(32)"
      from e have "bit (v AND mask w) n = bit v n" by (simp only:)
      then show "bit (v AND NOT (mask w)) n = bit (0 :: u32) n" by (auto simp: bit_simps)
    qed
  qed
  also have "\<dots> \<longleftrightarrow> v < 2 ^ w"
    using assms by (simp add: mask_eq_iff_w2p word_size)
  finally show ?thesis .
qed

lemma field_shape: "drop_bit (constCtz (fieldMask f)) (fieldMask f) = mask (fieldWidth f)"
proof (cases f)
  case FieldOp
  then show ?thesis by (simp add: constCtz_masks) (simp add: mask_values mask_eq_exp_minus_1)
next
  case FieldRegType
  then show ?thesis by (simp add: constCtz_masks) (simp add: mask_values mask_eq_exp_minus_1)
next
  case FieldRegGroup
  then show ?thesis by (simp add: constCtz_masks) (simp add: mask_values mask_eq_exp_minus_1)
next
  case FieldSize
  then show ?thesis by (simp add: constCtz_masks) (simp add: mask_values mask_eq_exp_minus_1)
next
  case FieldMemAddrType
  then show ?thesis by (simp add: constCtz_masks) (simp add: mask_values mask_eq_exp_minus_1)
qed

lemma fieldWidth_less: "fieldWidth f < 32"
  by (cases f) simp_all


lemma field_assert_iff:
  "v AND NOT (drop_bit (constCtz (fieldMask f)) (fieldMask f)) = 0 \<longleftrightarrow> v < 2 ^ fieldWidth f"
  by (simp only: field_shape fits_iff_assert [OF fieldWidth_less])

lemma fieldMask_disjoint: "g \<noteq> f \<Longrightarrow> fieldMask g AND fieldMask f = 0"
  by (cases g; cases f) (simp_all add: mask_values)

text \<open>
  C6. For each of the fields kind, register type, register group, size and memory
  address kind, and every operand: writing a value that fits the width of the field
  succeeds, reading the field back gives the value written, every other of these
  fields reads as before, every signature bit outside the field is unchanged, and
  so are base id and payload.
\<close>

theorem signature_field_isolation:
  assumes "v < 2 ^ fieldWidth f"
  shows "\<exists>q. setSignaturePart (fieldMask f) v p = Some q
    \<and> getSignaturePart (fieldMask f) q = v
    \<and> (\<forall>g. g \<noteq> f \<longrightarrow> getSignaturePart (fieldMask g) q = getSignaturePart (fieldMask g) p)
    \<and> signature q AND NOT (fieldMask f) = signature p AND NOT (fieldMask f)
    \<and> op_baseId q = op_baseId p \<and> data64 q = data64 p"
proof -
  let ?m = "fieldMask f"
  let ?q = "p\<lparr>op_signature := (op_signature p AND NOT ?m) OR push_bit (constCtz ?m) v\<rparr>"
  from assms have a: "v AND NOT (drop_bit (constCtz ?m) ?m) = 0"
    by (simp only: field_assert_iff)
  have s: "setSignaturePart ?m v p = Some ?q"
    by (simp only: setSignaturePart_def a simp_thms if_True)
  have g: "getSignaturePart ?m ?q = v"
    using set_then_get [OF a] by (simp add: getSignaturePart_def)
  have fr: "op_signature ?q AND NOT ?m = op_signature p AND NOT ?m"
    using set_frame [OF a] by simp
  have o: "getSignaturePart (fieldMask g) ?q = getSignaturePart (fieldMask g) p" if "g \<noteq> f" for g
    unfolding getSignaturePart_def get_as_and
    by (simp only: other_field_kept [OF fr fieldMask_disjoint [OF that]])
  have rest: "op_baseId ?q = op_baseId p" "data64 ?q = data64 p"
    by (simp_all add: data64_def)
  show ?thesis
    unfolding signature_def
    by (intro exI [of _ ?q] conjI allI impI s g fr rest o)
qed

theorem signature_field_isolation_witness:
  "(8 :: u32) < 2 ^ fieldWidth FieldSize
   \<and> setSignaturePart (fieldMask FieldSize) 8 (Operand_init 0x04000029 3 0 0)
       = Some (Operand_init 0x08000029 3 0 0)
   \<and> getSignaturePart (fieldMask FieldSize) (Operand_init 0x08000029 3 0 0) = 8
   \<and> getSignaturePart (fieldMask FieldRegType) (Operand_init 0x08000029 3 0 0) = 5
   \<and> getSignaturePart (fieldMask FieldOp) (Operand_init 0x08000029 3 0 0) = 1"
proof -
  have h: "(8 :: u32) < 2 ^ fieldWidth FieldSize" by simp
  show ?thesis
    using h signature_field_isolation [OF h, of "Operand_init 0x04000029 3 0 0"]
    by (simp add: setSignaturePart_def getSignaturePart_def constCtz_masks, simp add: mask_values Operand_init_def)
qed

subsection \<open>Immediates\<close>

lemma data64_Imm: "data64 (Imm v) = v"
  by (simp add: data64_def Imm_def Operand_init_def unpackU32At0_def unpackU32At1_def join64_split)

lemmas fit_defs = fits_def isInt8_def isUInt8_def isInt16_def isUInt16_def isInt32_def
  isUInt32_def Support_isInt8_def Support_isUInt8_def Support_isInt16_def Support_isUInt16_def
  Support_isInt32_def Support_isUInt32_def data64_Imm

text \<open>
  C8. An immediate constructed from each of the literals -129, -128, 127, 128, 255,
  256, 65535, 65536, 2147483647 and 2147483648 answers the six fit predicates
  (int8, uint8, int16, uint16, int32, uint32, in this order) as the two's
  complement range of each width dictates.
\<close>

theorem immediate_fit_table:
  "fits (- 129) = (False, False, True, False, True, False)
   \<and> fits (- 128) = (True, False, True, False, True, False)
   \<and> fits 127 = (True, True, True, True, True, True)
   \<and> fits 128 = (False, True, True, True, True, True)
   \<and> fits 255 = (False, True, True, True, True, True)
   \<and> fits 256 = (False, False, True, True, True, True)
   \<and> fits 65535 = (False, False, False, True, True, True)
   \<and> fits 65536 = (False, False, False, False, True, True)
   \<and> fits 2147483647 = (False, False, False, False, True, True)
   \<and> fits 2147483648 = (False, False, False, False, False, True)"
  by (simp add: fit_defs)

end
